theory Spec2Isabelle
  imports Main
begin

section \<open>Data model (shared/schema.ts as used by server/storage.ts and server/routes.ts)\<close>

text \<open>
  Modelled from the spec: the module \<^verbatim>\<open>@shared/schema\<close> (types and the constant
  \<^verbatim>\<open>AI_MODELS\<close>) is imported by both server files but is not part of the sources at hand.
  The closed voter set is taken from the documented interface
  \<^verbatim>\<open>model: "grok" | "chatgpt" | "claude"\<close> and from the handler's own message
  "All three AI models must respond before consensus can be reached".
\<close>

datatype ai_model = Grok | Chatgpt | Claude

definition AI_MODELS :: "ai_model list" where
  "AI_MODELS = [Grok, Chatgpt, Claude]"

datatype vote = Approve | Reject | Abstain

datatype outcome = Approved | Rejected | Needs_revision

datatype status = Pending | Deliberating | Consensus_reached | Deadlock

datatype category =
  Architecture | Feature | Refactor | Security | Performance | Dependency | Other

datatype priority = Low | Medium | High | Critical

text \<open>\<^verbatim>\<open>InsertAIResponse\<close>: what a caller hands to \<^verbatim>\<open>addAIResponse\<close>.\<close>

record InsertAIResponse =
  decisionId :: string
  model :: ai_model
  vote :: vote
  reasoning :: string
  confidence :: int
  risks :: "string list option"
  recommendations :: "string list option"

text \<open>\<^verbatim>\<open>AIResponse\<close>: the insert data spread, plus \<^verbatim>\<open>id\<close> and \<^verbatim>\<open>createdAt\<close>.\<close>

record AIResponse = InsertAIResponse +
  resp_id :: string
  resp_createdAt :: string

record VoteSummary =
  approve :: nat
  reject :: nat
  abstain :: nat

text \<open>\<^verbatim>\<open>Omit<Consensus, "id" | "decisionId" | "createdAt">\<close>, the argument of \<^verbatim>\<open>setConsensus\<close>.\<close>

record ConsensusData =
  outcome :: outcome
  unanimity :: bool
  voteSummary :: VoteSummary
  synthesizedReasoning :: string
  actionItems :: "string list option"

record Consensus = ConsensusData +
  cons_id :: string
  cons_decisionId :: string
  cons_createdAt :: string

record InsertDecision =
  title :: string
  description :: string
  dec_context :: "string option"
  category :: category
  priority :: priority

record Decision = InsertDecision +
  dec_id :: string
  status :: status
  responses :: "AIResponse list"
  consensus :: "Consensus option"
  createdAt :: string
  updatedAt :: string

section \<open>MemStorage (server/storage.ts)\<close>

text \<open>
  The three private \<^verbatim>\<open>Map\<close>s of the class. The two effects of the environment,
  \<^verbatim>\<open>randomUUID()\<close> and \<^verbatim>\<open>new Date().toISOString()\<close>, are arguments of the operations:
  one argument for every call the method body makes, in the order of the calls.
\<close>

record MemStorage =
  decisions :: "string \<rightharpoonup> Decision"
  aiResponses :: "string \<rightharpoonup> AIResponse list"
  consensuses :: "string \<rightharpoonup> Consensus"

definition MemStorage_new :: MemStorage where
  "MemStorage_new =
     \<lparr>decisions = Map.empty, aiResponses = Map.empty, consensuses = Map.empty\<rparr>"

definition createDecision ::
  "InsertDecision \<Rightarrow> string \<Rightarrow> string \<Rightarrow> MemStorage \<Rightarrow> Decision \<times> MemStorage" where
  "createDecision insertDecision uuid now s =
     (let decision =
            \<lparr>title = title insertDecision, description = description insertDecision,
             dec_context = dec_context insertDecision, category = category insertDecision,
             priority = priority insertDecision,
             dec_id = uuid, status = Pending, responses = [], consensus = None,
             createdAt = now, updatedAt = now\<rparr>
      in (decision,
          s\<lparr>decisions := (decisions s)(uuid \<mapsto> decision),
            aiResponses := (aiResponses s)(uuid \<mapsto> [])\<rparr>))"

text \<open>\<^verbatim>\<open>this.aiResponses.get(id) || []\<close>: an array, also an empty one, is truthy.\<close>

definition getAIResponses :: "string \<Rightarrow> MemStorage \<Rightarrow> AIResponse list" where
  "getAIResponses decId s = (case aiResponses s decId of None \<Rightarrow> [] | Some rs \<Rightarrow> rs)"

definition getConsensus :: "string \<Rightarrow> MemStorage \<Rightarrow> Consensus option" where
  "getConsensus decId s = consensuses s decId"

definition getDecision :: "string \<Rightarrow> MemStorage \<Rightarrow> Decision option" where
  "getDecision ident s =
     (case decisions s ident of
        None \<Rightarrow> None
      | Some decision \<Rightarrow>
          Some (decision\<lparr>responses := getAIResponses ident s,
                         consensus := consensuses s ident\<rparr>))"

definition deleteDecision :: "string \<Rightarrow> MemStorage \<Rightarrow> bool \<times> MemStorage" where
  "deleteDecision ident s =
     (let existed = (decisions s ident \<noteq> None)
      in (existed,
          s\<lparr>decisions := (decisions s)(ident := None),
            aiResponses := (aiResponses s)(ident := None),
            consensuses := (consensuses s)(ident := None)\<rparr>))"

text \<open>\<^verbatim>\<open>Array.prototype.findIndex\<close>: the first index whose element passes, or \<open>-1\<close>.\<close>

fun findIndex :: "('a \<Rightarrow> bool) \<Rightarrow> 'a list \<Rightarrow> int" where
  "findIndex P [] = - 1"
| "findIndex P (x # xs) =
     (if P x then 0 else (let i = findIndex P xs in if i < 0 then - 1 else i + 1))"

text \<open>\<^verbatim>\<open>AI_MODELS.every(model => responses.some(r => r.model === model))\<close>\<close>

definition allResponded :: "AIResponse list \<Rightarrow> bool" where
  "allResponded rs = list_all (\<lambda>m. list_ex (\<lambda>r. model r = m) rs) AI_MODELS"

definition addAIResponse ::
  "InsertAIResponse \<Rightarrow> string \<Rightarrow> string \<Rightarrow> string \<Rightarrow> MemStorage \<Rightarrow> AIResponse \<times> MemStorage"
  where
  "addAIResponse insertResponse uuid now now' s =
     (let response =
            \<lparr>decisionId = decisionId insertResponse, model = model insertResponse,
             vote = vote insertResponse, reasoning = reasoning insertResponse,
             confidence = confidence insertResponse, risks = risks insertResponse,
             recommendations = recommendations insertResponse,
             resp_id = uuid, resp_createdAt = now\<rparr>;
          rs = getAIResponses (decisionId insertResponse) s;
          existingIndex = findIndex (\<lambda>r. model r = model response) rs;
          rs' = (if existingIndex \<ge> 0 then rs[nat existingIndex := response]
                 else rs @ [response]);
          s1 = s\<lparr>aiResponses := (aiResponses s)(decisionId insertResponse \<mapsto> rs')\<rparr>
      in (response,
          case decisions s1 (decisionId insertResponse) of
            None \<Rightarrow> s1
          | Some decision \<Rightarrow>
              if allResponded rs' \<and> status decision = Pending
              then s1\<lparr>decisions := (decisions s1)(decisionId insertResponse \<mapsto>
                        decision\<lparr>status := Deliberating, updatedAt := now'\<rparr>)\<rparr>
              else s1))"

definition setConsensus ::
  "string \<Rightarrow> ConsensusData \<Rightarrow> string \<Rightarrow> string \<Rightarrow> string \<Rightarrow> MemStorage
     \<Rightarrow> Consensus option \<times> MemStorage" where
  "setConsensus decId consensusData uuid now now' s =
     (case decisions s decId of
        None \<Rightarrow> (None, s)
      | Some decision \<Rightarrow>
          (let cons =
                 \<lparr>outcome = outcome consensusData, unanimity = unanimity consensusData,
                  voteSummary = voteSummary consensusData,
                  synthesizedReasoning = synthesizedReasoning consensusData,
                  actionItems = actionItems consensusData,
                  cons_id = uuid, cons_decisionId = decId, cons_createdAt = now\<rparr>
           in (Some cons,
               s\<lparr>consensuses := (consensuses s)(decId \<mapsto> cons),
                 decisions := (decisions s)(decId \<mapsto>
                   decision\<lparr>status := Consensus_reached, updatedAt := now'\<rparr>)\<rparr>)))"

section \<open>Consensus calculation (POST /api/decisions/:id/consensus, server/routes.ts)\<close>

definition countVotes :: "vote \<Rightarrow> AIResponse list \<Rightarrow> nat" where
  "countVotes v rs = length (filter (\<lambda>r. vote r = v) rs)"

definition tally :: "AIResponse list \<Rightarrow> VoteSummary" where
  "tally rs =
     \<lparr>approve = countVotes Approve rs, reject = countVotes Reject rs,
      abstain = countVotes Abstain rs\<rparr>"

definition determineOutcome :: "VoteSummary \<Rightarrow> outcome" where
  "determineOutcome vs =
     (if approve vs \<ge> 2 then Approved
      else if reject vs \<ge> 2 then Rejected
      else Needs_revision)"

definition checkUnanimity :: "VoteSummary \<Rightarrow> bool" where
  "checkUnanimity vs = (approve vs = 3 \<or> reject vs = 3)"

text \<open>
  Template-literal rendering of a \<^verbatim>\<open>number\<close>, for integral values in the safe-integer range
  (magnitude below \<open>2\<^sup>5\<^sup>3\<close>), where JavaScript prints plain decimal digits; this covers the
  confidence range 0 to 100 of the data model. Fractional values and the exponent notation of
  larger magnitudes are outside this rendering; it feeds \<open>synthesizedReasoning\<close> only.
\<close>

fun showNat :: "nat \<Rightarrow> string" where
  "showNat n =
     (if n < 10 then [char_of (48 + n)]
      else showNat (n div 10) @ [char_of (48 + n mod 10)])"

definition showInt :: "int \<Rightarrow> string" where
  "showInt i = (if i < 0 then CHR ''-'' # showNat (nat (- i)) else showNat (nat i))"

definition showVote :: "vote \<Rightarrow> string" where
  "showVote v = (case v of Approve \<Rightarrow> ''approve'' | Reject \<Rightarrow> ''reject''
                   | Abstain \<Rightarrow> ''abstain'')"

text \<open>\<^verbatim>\<open>Array.prototype.join\<close>\<close>

fun join :: "string \<Rightarrow> string list \<Rightarrow> string" where
  "join sep [] = []"
| "join sep [x] = x"
| "join sep (x # y # ys) = x @ sep @ join sep (y # ys)"

text \<open>
  The display names \<^verbatim>\<open>AI_MODEL_ROLES[m].name\<close> live in the absent schema module; the
  table is the parameter \<open>roleName\<close>.
\<close>

definition synthesize :: "(ai_model \<Rightarrow> string) \<Rightarrow> AIResponse list \<Rightarrow> string" where
  "synthesize roleName rs =
     join [CHR 0x0A, CHR 0x0A]
       (map (\<lambda>r. roleName (model r) @ '' ('' @ showVote (vote r) @ '', ''
                  @ showInt (confidence r) @ ''% confidence): '' @ reasoning r) rs)"

text \<open>
  \<^verbatim>\<open>Array.from(new Set(xs))\<close>: a \<^verbatim>\<open>Set\<close> keeps insertion order and ignores the insertion
  of a value it already holds.
\<close>

definition setAdd :: "'a list \<Rightarrow> 'a \<Rightarrow> 'a list" where
  "setAdd acc x = (if x \<in> set acc then acc else acc @ [x])"

definition arrayFromSet :: "'a list \<Rightarrow> 'a list" where
  "arrayFromSet xs = foldl setAdd [] xs"

text \<open>\<^verbatim>\<open>responses.flatMap(r => r.recommendations || [])\<close>\<close>

definition allActionItems :: "AIResponse list \<Rightarrow> string list" where
  "allActionItems rs =
     concat (map (\<lambda>r. case recommendations r of None \<Rightarrow> [] | Some xs \<Rightarrow> xs) rs)"

text \<open>Lines 262 to 298 of the handler: the argument it passes to \<^verbatim>\<open>setConsensus\<close>.\<close>

definition calculateConsensus :: "(ai_model \<Rightarrow> string) \<Rightarrow> AIResponse list \<Rightarrow> ConsensusData"
  where
  "calculateConsensus roleName rs =
     (let vs = tally rs;
          uniqueActionItems = arrayFromSet (allActionItems rs)
      in \<lparr>outcome = determineOutcome vs,
          unanimity = checkUnanimity vs,
          voteSummary = vs,
          synthesizedReasoning = synthesize roleName rs,
          actionItems = (if length uniqueActionItems > 0 then Some uniqueActionItems
                         else None)\<rparr>)"

section \<open>Route handlers (server/routes.ts)\<close>

datatype reply =
  Decision_not_found
  | Validation_failed
  | Cannot_reach_consensus "ai_model list" "ai_model list"
  | Created_response AIResponse
  | Created_consensus "Consensus option"

text \<open>\<^verbatim>\<open>AI_MODELS.filter(m => !responses.some(r => r.model === m))\<close>\<close>

definition missingModels :: "AIResponse list \<Rightarrow> ai_model list" where
  "missingModels rs = filter (\<lambda>m. \<not> list_ex (\<lambda>r. model r = m) rs) AI_MODELS"

definition postConsensus ::
  "(ai_model \<Rightarrow> string) \<Rightarrow> string \<Rightarrow> string \<Rightarrow> string \<Rightarrow> string \<Rightarrow> MemStorage
     \<Rightarrow> reply \<times> MemStorage" where
  "postConsensus roleName ident uuid now now' s =
     (case getDecision ident s of
        None \<Rightarrow> (Decision_not_found, s)
      | Some decision \<Rightarrow>
          (let rs = getAIResponses ident s;
               hasAllResponses = list_all (\<lambda>m. list_ex (\<lambda>r. model r = m) rs) AI_MODELS
           in if \<not> hasAllResponses
              then (Cannot_reach_consensus (map model rs) (missingModels rs), s)
              else (case setConsensus ident (calculateConsensus roleName rs) uuid now now' s of
                      (cons, s') \<Rightarrow> (Created_consensus cons, s'))))"

text \<open>
  POST /api/decisions/:id/responses. The request body arrives with the route's id written
  into \<^verbatim>\<open>decisionId\<close>; \<^verbatim>\<open>insertAIResponseSchema\<close> belongs to the absent schema module and
  is the parameter \<open>valid\<close> (a failed parse is the 400 reply).
\<close>

definition postResponse ::
  "(InsertAIResponse \<Rightarrow> bool) \<Rightarrow> string \<Rightarrow> InsertAIResponse \<Rightarrow> string \<Rightarrow> string \<Rightarrow> string
     \<Rightarrow> MemStorage \<Rightarrow> reply \<times> MemStorage" where
  "postResponse valid ident body uuid now now' s =
     (case getDecision ident s of
        None \<Rightarrow> (Decision_not_found, s)
      | Some decision \<Rightarrow>
          (let validatedData = body\<lparr>decisionId := ident\<rparr>
           in if \<not> valid validatedData then (Validation_failed, s)
              else (case addAIResponse validatedData uuid now now' s of
                      (response, s') \<Rightarrow> (Created_response response, s'))))"

section \<open>Specification vocabulary\<close>

text \<open>
  The majority threshold in the specification's words: strictly more than half of \<open>n\<close>,
  that is \<open>\<lceil>(n + 1) / 2\<rceil>\<close>.
\<close>

definition majorityThreshold :: "nat \<Rightarrow> nat" where
  "majorityThreshold n = (n + 2) div 2"

definition countModel :: "ai_model \<Rightarrow> AIResponse list \<Rightarrow> nat" where
  "countModel m rs = length (filter (\<lambda>r. model r = m) rs)"

text \<open>A complete response set: exactly one response of every required voter.\<close>

definition completeSet :: "AIResponse list \<Rightarrow> bool" where
  "completeSet rs = list_all (\<lambda>m. countModel m rs = 1) AI_MODELS"

text \<open>The vote values across all responses have exactly one distinct member.\<close>

definition sameVote :: "AIResponse list \<Rightarrow> bool" where
  "sameVote rs = (card (vote ` set rs) = 1)"


section \<open>Sequences of store operations\<close>

text \<open>
  A caller's use of the store: any sequence of its writing methods, each with the values
  the id generator and the clock hand to that call.
\<close>

datatype operation =
  Create InsertDecision string string
  | Delete string
  | Submit InsertAIResponse string string string
  | SetConsensus string ConsensusData string string string

fun perform :: "operation \<Rightarrow> MemStorage \<Rightarrow> MemStorage" where
  "perform (Create ins uuid now) s = snd (createDecision ins uuid now s)"
| "perform (Delete ident) s = snd (deleteDecision ident s)"
| "perform (Submit ins uuid now now') s = snd (addAIResponse ins uuid now now' s)"
| "perform (SetConsensus ident body uuid now now') s =
     snd (setConsensus ident body uuid now now' s)"

fun run :: "operation list \<Rightarrow> MemStorage \<Rightarrow> MemStorage" where
  "run [] s = s"
| "run (x # xs) s = run xs (perform x s)"

fun isSubmit :: "operation \<Rightarrow> bool" where
  "isSubmit (Submit ins uuid now now') = True"
| "isSubmit _ = False"

text \<open>
  Two names for parts of \<^verbatim>\<open>addAIResponse\<close>: the response object it builds and the array it
  writes back. Lemmas \<open>fst_addAIResponse\<close> and \<open>responses_addAIResponse\<close> tie them to the
  method.
\<close>

definition stamped :: "InsertAIResponse \<Rightarrow> string \<Rightarrow> string \<Rightarrow> AIResponse" where
  "stamped ins uuid now =
     \<lparr>decisionId = decisionId ins, model = model ins, vote = vote ins,
      reasoning = reasoning ins, confidence = confidence ins, risks = risks ins,
      recommendations = recommendations ins, resp_id = uuid, resp_createdAt = now\<rparr>"

definition written ::
  "InsertAIResponse \<Rightarrow> string \<Rightarrow> string \<Rightarrow> AIResponse list \<Rightarrow> AIResponse list" where
  "written ins uuid now rs =
     (if 0 \<le> findIndex (\<lambda>x. model x = model ins) rs
      then rs[nat (findIndex (\<lambda>x. model x = model ins) rs) := stamped ins uuid now]
      else rs @ [stamped ins uuid now])"

section \<open>Example data\<close>

definition exampleRoles :: "ai_model \<Rightarrow> string" where
  "exampleRoles m =
     (case m of Grok \<Rightarrow> ''Grok'' | Chatgpt \<Rightarrow> ''ChatGPT'' | Claude \<Rightarrow> ''Claude'')"

definition ballot :: "ai_model \<Rightarrow> vote \<Rightarrow> int \<Rightarrow> string list option \<Rightarrow> AIResponse" where
  "ballot m v c recs =
     \<lparr>decisionId = ''d1'', model = m, vote = v, reasoning = ''ok'', confidence = c,
      risks = None, recommendations = recs, resp_id = ''r'', resp_createdAt = ''t''\<rparr>"

definition twoToOne :: "AIResponse list" where
  "twoToOne = [ballot Grok Approve 90 (Some [''ship'', ''test'']),
               ballot Chatgpt Approve 80 None,
               ballot Claude Reject 70 (Some [''test'', ''audit''])]"

definition allAbstain :: "AIResponse list" where
  "allAbstain = [ballot Grok Abstain 10 None, ballot Chatgpt Abstain 20 None,
                 ballot Claude Abstain 30 None]"

definition exampleDecision :: InsertDecision where
  "exampleDecision = \<lparr>title = ''Dark mode'', description = ''Add a toggle'',
     dec_context = None, category = Feature, priority = High\<rparr>"

definition createdDecision :: Decision where
  "createdDecision = fst (createDecision exampleDecision ''d1'' ''t0'' MemStorage_new)"

definition submission :: "ai_model \<Rightarrow> vote \<Rightarrow> InsertAIResponse" where
  "submission m v = \<lparr>decisionId = ''d1'', model = m, vote = v, reasoning = ''ok'',
     confidence = 80, risks = None, recommendations = None\<rparr>"

definition onlyCreated :: MemStorage where
  "onlyCreated = run [Create exampleDecision ''d1'' ''t0''] MemStorage_new"

definition twoResponded :: MemStorage where
  "twoResponded =
     run [Create exampleDecision ''d1'' ''t0'',
          Submit (submission Grok Approve) ''r1'' ''t1'' ''u1'',
          Submit (submission Chatgpt Reject) ''r2'' ''t2'' ''u2''] MemStorage_new"

definition allRespondedStore :: MemStorage where
  "allRespondedStore =
     run [Create exampleDecision ''d1'' ''t0'',
          Submit (submission Grok Approve) ''r1'' ''t1'' ''u1'',
          Submit (submission Chatgpt Approve) ''r2'' ''t2'' ''u2'',
          Submit (submission Claude Approve) ''r3'' ''t3'' ''u3''] MemStorage_new"

definition exampleConsensus :: Consensus where
  "exampleConsensus =
     \<lparr>outcome = Approved, unanimity = True,
      voteSummary = \<lparr>approve = 3, reject = 0, abstain = 0\<rparr>,
      synthesizedReasoning = synthesize exampleRoles (getAIResponses ''d1'' allRespondedStore),
      actionItems = None,
      cons_id = ''c1'', cons_decisionId = ''d1'', cons_createdAt = ''t4''\<rparr>"

definition splitVote :: "AIResponse list" where
  "splitVote = [ballot Grok Approve 90 None, ballot Chatgpt Reject 80 None,
                ballot Claude Abstain 70 None]"

definition unanimousApprove :: "AIResponse list" where
  "unanimousApprove = [ballot Grok Approve 90 None, ballot Chatgpt Approve 80 None,
                       ballot Claude Approve 70 None]"

definition allAbstainStore :: MemStorage where
  "allAbstainStore =
     run [Create exampleDecision ''d1'' ''t0'',
          Submit (submission Grok Abstain) ''r1'' ''t1'' ''u1'',
          Submit (submission Chatgpt Abstain) ''r2'' ''t2'' ''u2'',
          Submit (submission Claude Abstain) ''r3'' ''t3'' ''u3''] MemStorage_new"

definition abstainConsensus :: Consensus where
  "abstainConsensus =
     \<lparr>outcome = Needs_revision, unanimity = False,
      voteSummary = \<lparr>approve = 0, reject = 0, abstain = 3\<rparr>,
      synthesizedReasoning = synthesize exampleRoles (getAIResponses ''d1'' allAbstainStore),
      actionItems = None,
      cons_id = ''c1'', cons_decisionId = ''d1'', cons_createdAt = ''t4''\<rparr>"

definition orphanStore :: MemStorage where
  "orphanStore =
     run [Submit (submission Grok Approve) ''r1'' ''t1'' ''u1''] MemStorage_new"

lemmas store_defs = createDecision_def addAIResponse_def
  getAIResponses_def MemStorage_new_def Let_def allResponded_def AI_MODELS_def
  submission_def exampleDecision_def

section \<open>The consensus calculation\<close>

lemma majorityThreshold_strict: "majorityThreshold n \<le> k \<longleftrightarrow> n < 2 * k"
  unfolding majorityThreshold_def by arith

lemma length_by_model:
  "length rs = countModel Grok rs + countModel Chatgpt rs + countModel Claude rs"
proof (induction rs)
  case Nil
  show ?case by (simp add: countModel_def)
next
  case (Cons r rs)
  then show ?case by (cases "model r") (simp_all add: countModel_def)
qed

lemma completeSet_length: "completeSet rs \<Longrightarrow> length rs = 3"
  using length_by_model [of rs] by (simp add: completeSet_def AI_MODELS_def)

lemma length_by_vote:
  "countVotes Approve rs + countVotes Reject rs + countVotes Abstain rs = length rs"
proof (induction rs)
  case Nil
  show ?case by (simp add: countVotes_def)
next
  case (Cons r rs)
  then show ?case by (cases "vote r") (simp_all add: countVotes_def)
qed

lemma outcome_calc: "outcome (calculateConsensus roleName rs) = determineOutcome (tally rs)"
  by (simp add: calculateConsensus_def Let_def)

lemma unanimity_calc:
  "unanimity (calculateConsensus roleName rs) = checkUnanimity (tally rs)"
  by (simp add: calculateConsensus_def Let_def)

lemma count_all: "length (filter P xs) = length xs \<longleftrightarrow> list_all P xs"
proof (induction xs)
  case Nil
  show ?case by simp
next
  case (Cons x xs)
  have le: "length (filter P xs) \<le> length xs" by (rule length_filter_le)
  show ?case
  proof (cases "P x")
    case True
    with Cons show ?thesis by simp
  next
    case False
    from le have "length (filter P xs) \<noteq> Suc (length xs)" by arith
    with False show ?thesis by simp
  qed
qed

lemma sameVote_all:
  assumes "rs \<noteq> []"
  shows "sameVote rs \<longleftrightarrow> (\<exists>v. list_all (\<lambda>r. vote r = v) rs)"
proof
  assume "sameVote rs"
  then obtain v where "vote ` set rs = {v}"
    by (auto simp: sameVote_def card_1_singleton_iff)
  then have "\<forall>r\<in>set rs. vote r = v" by auto
  then show "\<exists>v. list_all (\<lambda>r. vote r = v) rs" by (auto simp: list_all_iff)
next
  assume "\<exists>v. list_all (\<lambda>r. vote r = v) rs"
  then obtain v where v: "\<forall>r\<in>set rs. vote r = v" by (auto simp: list_all_iff)
  from assms obtain r where "r \<in> set rs" by (cases rs) auto
  with v have "vote ` set rs = {v}" by force
  then show "sameVote rs" by (simp add: sameVote_def)
qed

text \<open>
  C1. For a complete response set (one response of each of the \<open>n\<close> required voters) the
  outcome is \<open>Approved\<close> iff the approve count reaches the majority threshold
  \<open>\<lceil>(n + 1) / 2\<rceil>\<close>, that is iff strictly more than half approve; otherwise \<open>Rejected\<close>
  iff the reject count reaches the same threshold; otherwise \<open>Needs_revision\<close>. The approve
  rule is tried first, and a tie between approve and reject gives \<open>Needs_revision\<close>.
\<close>

theorem outcome_majority_rule:
  assumes "completeSet rs"
  shows "length rs = length AI_MODELS
    \<and> outcome (calculateConsensus roleName rs) =
        (if majorityThreshold (length AI_MODELS) \<le> countVotes Approve rs then Approved
         else if majorityThreshold (length AI_MODELS) \<le> countVotes Reject rs then Rejected
         else Needs_revision)
    \<and> (outcome (calculateConsensus roleName rs) = Approved
         \<longleftrightarrow> length AI_MODELS < 2 * countVotes Approve rs)
    \<and> (outcome (calculateConsensus roleName rs) = Rejected
         \<longleftrightarrow> length AI_MODELS < 2 * countVotes Reject rs)
    \<and> (countVotes Approve rs = countVotes Reject rs
         \<longrightarrow> outcome (calculateConsensus roleName rs) = Needs_revision)"
proof -
  have len: "length rs = 3" using assms by (rule completeSet_length)
  have n: "length AI_MODELS = 3" by (simp add: AI_MODELS_def)
  have thr: "majorityThreshold 3 = 2"
    by (simp add: majorityThreshold_def)
  have sum: "countVotes Approve rs + countVotes Reject rs + countVotes Abstain rs = 3"
    using length_by_vote [of rs] len by simp
  show ?thesis
    using sum by (auto simp: outcome_calc determineOutcome_def tally_def thr n len)
qed

theorem outcome_majority_rule_witness:
  "completeSet twoToOne \<and> countVotes Approve twoToOne = 2
     \<and> outcome (calculateConsensus exampleRoles twoToOne) = Approved
     \<and> completeSet splitVote \<and> countVotes Approve splitVote = countVotes Reject splitVote
     \<and> outcome (calculateConsensus exampleRoles splitVote) = Needs_revision"
  using outcome_majority_rule [of twoToOne exampleRoles]
    outcome_majority_rule [of splitVote exampleRoles]
  by (simp add: completeSet_def countModel_def twoToOne_def splitVote_def ballot_def
        AI_MODELS_def countVotes_def majorityThreshold_def)

text \<open>
  C2, as stated, fails: three abstentions form a complete set whose votes are all
  identical, and the handler reports \<open>unanimity = False\<close> for it.
\<close>

theorem unanimity_all_abstain_counterexample:
  "completeSet allAbstain \<and> sameVote allAbstain
     \<and> \<not> unanimity (calculateConsensus exampleRoles allAbstain)"
  by (simp add: completeSet_def countModel_def allAbstain_def ballot_def AI_MODELS_def
        sameVote_def unanimity_calc checkUnanimity_def tally_def countVotes_def)

text \<open>
  C2, amended. For a complete response set the unanimity flag is true iff every response
  votes approve or every response votes reject; a true flag implies that all votes are
  identical, and a set in which every voter abstains has identical votes, unanimity false
  and outcome \<open>Needs_revision\<close>.
\<close>

theorem unanimity_approve_or_reject:
  assumes "completeSet rs"
  shows "(unanimity (calculateConsensus roleName rs)
            \<longleftrightarrow> list_all (\<lambda>r. vote r = Approve) rs \<or> list_all (\<lambda>r. vote r = Reject) rs)
    \<and> (unanimity (calculateConsensus roleName rs) \<longrightarrow> sameVote rs)
    \<and> (list_all (\<lambda>r. vote r = Abstain) rs
          \<longrightarrow> sameVote rs \<and> \<not> unanimity (calculateConsensus roleName rs)
              \<and> outcome (calculateConsensus roleName rs) = Needs_revision)"
proof -
  have len: "length rs = 3" using assms by (rule completeSet_length)
  then have ne: "rs \<noteq> []" by auto
  have u: "unanimity (calculateConsensus roleName rs)
            \<longleftrightarrow> list_all (\<lambda>r. vote r = Approve) rs \<or> list_all (\<lambda>r. vote r = Reject) rs"
    using count_all [of "\<lambda>r. vote r = Approve" rs] count_all [of "\<lambda>r. vote r = Reject" rs]
    by (simp add: unanimity_calc checkUnanimity_def tally_def countVotes_def len)
  have s: "unanimity (calculateConsensus roleName rs) \<longrightarrow> sameVote rs"
    using u sameVote_all [OF ne] by auto
  have a: "list_all (\<lambda>r. vote r = Abstain) rs
          \<longrightarrow> sameVote rs \<and> \<not> unanimity (calculateConsensus roleName rs)
              \<and> outcome (calculateConsensus roleName rs) = Needs_revision"
  proof
    assume ab: "list_all (\<lambda>r. vote r = Abstain) rs"
    then have "sameVote rs" using sameVote_all [OF ne] by auto
    moreover have "filter (\<lambda>r. vote r = Approve) rs = []"
      "filter (\<lambda>r. vote r = Reject) rs = []"
      using ab by (auto simp: list_all_iff filter_empty_conv)
    then have "countVotes Approve rs = 0" "countVotes Reject rs = 0"
      by (simp_all add: countVotes_def)
    then have "\<not> unanimity (calculateConsensus roleName rs)
              \<and> outcome (calculateConsensus roleName rs) = Needs_revision"
      by (simp add: unanimity_calc outcome_calc checkUnanimity_def determineOutcome_def
            tally_def)
    ultimately show "sameVote rs \<and> \<not> unanimity (calculateConsensus roleName rs)
              \<and> outcome (calculateConsensus roleName rs) = Needs_revision" by simp
  qed
  from u s a show ?thesis by blast
qed

theorem unanimity_approve_or_reject_witness:
  "completeSet allAbstain \<and> list_all (\<lambda>r. vote r = Abstain) allAbstain
     \<and> \<not> unanimity (calculateConsensus exampleRoles allAbstain)
     \<and> outcome (calculateConsensus exampleRoles allAbstain) = Needs_revision
     \<and> completeSet unanimousApprove
     \<and> unanimity (calculateConsensus exampleRoles unanimousApprove)
     \<and> sameVote unanimousApprove"
  using unanimity_approve_or_reject [of allAbstain exampleRoles]
    unanimity_approve_or_reject [of unanimousApprove exampleRoles]
  by (simp add: completeSet_def countModel_def allAbstain_def unanimousApprove_def ballot_def
        AI_MODELS_def)







section \<open>The store\<close>

lemma findIndex_lower: "- 1 \<le> findIndex P xs"
  by (induction xs) (auto simp: Let_def)

lemma findIndex_neg: "findIndex P xs < 0 \<longleftrightarrow> \<not> list_ex P xs"
  using findIndex_lower [of P] by (induction xs) (auto simp: Let_def)

lemma findIndex_hit:
  "0 \<le> findIndex P xs \<Longrightarrow> nat (findIndex P xs) < length xs \<and> P (xs ! nat (findIndex P xs))"
proof (induction xs)
  case Nil
  then show ?case by simp
next
  case (Cons x xs)
  show ?case
  proof (cases "P x")
    case True
    then show ?thesis by simp
  next
    case False
    with Cons.prems have i: "0 \<le> findIndex P xs"
      by (simp add: Let_def split: if_splits)
    then have "nat (findIndex P xs + 1) = Suc (nat (findIndex P xs))" by simp
    with False i Cons.IH show ?thesis by (simp add: Let_def)
  qed
qed

lemma findIndex_update:
  "0 \<le> findIndex P xs \<Longrightarrow> P y \<Longrightarrow> findIndex P (xs[nat (findIndex P xs) := y]) = findIndex P xs"
proof (induction xs)
  case Nil
  then show ?case by simp
next
  case (Cons x xs)
  show ?case
  proof (cases "P x")
    case True
    with Cons.prems show ?thesis by simp
  next
    case False
    with Cons.prems have i: "0 \<le> findIndex P xs"
      by (simp add: Let_def split: if_splits)
    then have "nat (findIndex P xs + 1) = Suc (nat (findIndex P xs))" by simp
    with False i Cons show ?thesis by (simp add: Let_def)
  qed
qed

lemma filter_update_hit:
  "distinct (map f xs) \<Longrightarrow> 0 \<le> findIndex (\<lambda>x. f x = k) xs \<Longrightarrow> f y = k
     \<Longrightarrow> filter (\<lambda>x. f x = k) (xs[nat (findIndex (\<lambda>x. f x = k) xs) := y]) = [y]"
proof (induction xs)
  case Nil
  then show ?case by simp
next
  case (Cons x xs)
  show ?case
  proof (cases "f x = k")
    case True
    with Cons.prems have "k \<notin> f ` set xs" by simp
    then have "\<forall>z\<in>set xs. f z \<noteq> k" by blast
    then have "filter (\<lambda>x. f x = k) xs = []" by (simp add: filter_empty_conv)
    with True Cons.prems show ?thesis by simp
  next
    case False
    with Cons.prems have i: "0 \<le> findIndex (\<lambda>x. f x = k) xs"
      by (simp add: Let_def split: if_splits)
    then have "nat (findIndex (\<lambda>x. f x = k) xs + 1) = Suc (nat (findIndex (\<lambda>x. f x = k) xs))"
      by simp
    with False i Cons show ?thesis by (simp add: Let_def)
  qed
qed

lemma map_update_hit:
  assumes "0 \<le> findIndex (\<lambda>x. f x = k) xs" "f y = k"
  shows "map f (xs[nat (findIndex (\<lambda>x. f x = k) xs) := y]) = map f xs"
proof -
  from findIndex_hit [OF assms(1)]
  have "nat (findIndex (\<lambda>x. f x = k) xs) < length xs"
    and "f (xs ! nat (findIndex (\<lambda>x. f x = k) xs)) = k" by simp_all
  with assms(2) show ?thesis by (simp add: map_update list_update_same_conv)
qed

lemma model_stamped: "model (stamped ins uuid now) = model ins"
  by (simp add: stamped_def)

lemma fst_addAIResponse: "fst (addAIResponse ins uuid now now' s) = stamped ins uuid now"
  by (simp add: addAIResponse_def stamped_def Let_def)

lemma responses_addAIResponse:
  "getAIResponses d (snd (addAIResponse ins uuid now now' s)) =
     (if d = decisionId ins then written ins uuid now (getAIResponses d s)
      else getAIResponses d s)"
  by (simp add: addAIResponse_def written_def stamped_def Let_def getAIResponses_def
      split: option.splits)

lemma distinct_written:
  assumes "distinct (map model rs)"
  shows "distinct (map model (written ins uuid now rs))"
proof (cases "0 \<le> findIndex (\<lambda>x. model x = model ins) rs")
  case True
  then show ?thesis
    using assms map_update_hit [of model "model ins" rs "stamped ins uuid now"]
    by (simp add: written_def model_stamped)
next
  case False
  then have "\<not> list_ex (\<lambda>x. model x = model ins) rs" by (simp add: findIndex_neg [symmetric])
  then have "model ins \<notin> model ` set rs" by (auto simp: list_ex_iff)
  with False assms show ?thesis by (simp add: written_def model_stamped)
qed

lemma filter_written:
  assumes "distinct (map model rs)"
  shows "filter (\<lambda>x. model x = model ins) (written ins uuid now rs) = [stamped ins uuid now]"
proof (cases "0 \<le> findIndex (\<lambda>x. model x = model ins) rs")
  case True
  then show ?thesis
    using filter_update_hit [OF assms True, of "stamped ins uuid now"]
    by (simp add: written_def model_stamped)
next
  case False
  then have "\<not> list_ex (\<lambda>x. model x = model ins) rs" by (simp add: findIndex_neg [symmetric])
  then have "filter (\<lambda>x. model x = model ins) rs = []"
    by (auto simp: list_ex_iff filter_empty_conv)
  with False show ?thesis by (simp add: written_def model_stamped)
qed

lemma distinct_perform:
  assumes "\<And>d. distinct (map model (getAIResponses d s))"
  shows "distinct (map model (getAIResponses d (perform x s)))"
proof (cases x)
  case (Create ins uuid now)
  then show ?thesis using assms [of d]
    by (simp add: createDecision_def getAIResponses_def Let_def)
next
  case (Delete ident)
  then show ?thesis using assms [of d]
    by (simp add: deleteDecision_def getAIResponses_def Let_def)
next
  case (Submit ins uuid now now')
  then show ?thesis
    by (simp add: responses_addAIResponse distinct_written assms)
next
  case (SetConsensus ident body uuid now now')
  then show ?thesis using assms [of d]
    by (simp add: setConsensus_def getAIResponses_def Let_def split: option.splits)
qed

lemma distinct_run:
  "(\<And>d. distinct (map model (getAIResponses d s)))
     \<Longrightarrow> distinct (map model (getAIResponses d (run xs s)))"
proof (induction xs arbitrary: s d)
  case Nil
  then show ?case by simp
next
  case (Cons x xs)
  have "\<And>d. distinct (map model (getAIResponses d (perform x s)))"
    using Cons.prems by (rule distinct_perform)
  then show ?case by (simp add: Cons.IH)
qed

lemma distinct_reachable: "distinct (map model (getAIResponses d (run xs MemStorage_new)))"
  by (rule distinct_run) (simp add: getAIResponses_def MemStorage_new_def)

lemma distinct_count: "distinct (map f xs) \<Longrightarrow> length (filter (\<lambda>x. f x = k) xs) \<le> 1"
proof (induction xs)
  case Nil
  show ?case by simp
next
  case (Cons a xs)
  show ?case
  proof (cases "f a = k")
    case True
    with Cons.prems have "k \<notin> f ` set xs" by simp
    then have "\<forall>z\<in>set xs. f z \<noteq> k" by blast
    then have "filter (\<lambda>x. f x = k) xs = []" by (simp add: filter_empty_conv)
    with True show ?thesis by simp
  next
    case False
    with Cons show ?thesis by simp
  qed
qed

text \<open>
  C3. In every store reached from the empty one by any sequence of create, delete, submit
  and setConsensus calls, a decision's response list holds at most one response of each
  voter. A submission leaves exactly one response of
  its voter, which carries the submitted content and vote together with the id and the
  timestamp drawn for this call; when the voter already had a response, the new one takes
  its positional slot and the list keeps its length.
\<close>

theorem one_response_per_voter:
  "countModel m (getAIResponses d (run ops MemStorage_new)) \<le> 1
   \<and> fst (addAIResponse ins uuid now now' (run ops MemStorage_new)) =
       \<lparr>decisionId = decisionId ins, model = model ins, vote = vote ins,
        reasoning = reasoning ins, confidence = confidence ins, risks = risks ins,
        recommendations = recommendations ins, resp_id = uuid, resp_createdAt = now\<rparr>
   \<and> filter (\<lambda>x. model x = model ins)
        (getAIResponses (decisionId ins)
           (snd (addAIResponse ins uuid now now' (run ops MemStorage_new))))
       = [fst (addAIResponse ins uuid now now' (run ops MemStorage_new))]
   \<and> (list_ex (\<lambda>x. model x = model ins)
         (getAIResponses (decisionId ins) (run ops MemStorage_new))
       \<longrightarrow> 0 \<le> findIndex (\<lambda>x. model x = model ins)
                  (getAIResponses (decisionId ins) (run ops MemStorage_new))
         \<and> nat (findIndex (\<lambda>x. model x = model ins)
                  (getAIResponses (decisionId ins) (run ops MemStorage_new)))
             < length (getAIResponses (decisionId ins) (run ops MemStorage_new))
         \<and> getAIResponses (decisionId ins)
             (snd (addAIResponse ins uuid now now' (run ops MemStorage_new)))
           = (getAIResponses (decisionId ins) (run ops MemStorage_new))
               [nat (findIndex (\<lambda>x. model x = model ins)
                  (getAIResponses (decisionId ins) (run ops MemStorage_new)))
                := fst (addAIResponse ins uuid now now' (run ops MemStorage_new))]
         \<and> findIndex (\<lambda>x. model x = model ins)
             (getAIResponses (decisionId ins)
                (snd (addAIResponse ins uuid now now' (run ops MemStorage_new))))
           = findIndex (\<lambda>x. model x = model ins)
               (getAIResponses (decisionId ins) (run ops MemStorage_new)))"
proof -
  let ?s = "run ops MemStorage_new"
  let ?rs = "getAIResponses (decisionId ins) ?s"
  let ?i = "findIndex (\<lambda>x. model x = model ins) ?rs"
  have d: "distinct (map model ?rs)" by (rule distinct_reachable)
  have one: "countModel m (getAIResponses d ?s) \<le> 1"
    unfolding countModel_def by (rule distinct_count) (rule distinct_reachable)
  have resp: "fst (addAIResponse ins uuid now now' ?s) = stamped ins uuid now"
    by (rule fst_addAIResponse)
  have after: "getAIResponses (decisionId ins) (snd (addAIResponse ins uuid now now' ?s))
                 = written ins uuid now ?rs"
    by (simp add: responses_addAIResponse)
  have single: "filter (\<lambda>x. model x = model ins) (written ins uuid now ?rs)
                  = [stamped ins uuid now]"
    using d by (rule filter_written)
  have slot: "list_ex (\<lambda>x. model x = model ins) ?rs
       \<longrightarrow> 0 \<le> ?i \<and> nat ?i < length ?rs
         \<and> written ins uuid now ?rs = ?rs[nat ?i := stamped ins uuid now]
         \<and> findIndex (\<lambda>x. model x = model ins) (written ins uuid now ?rs) = ?i"
  proof
    assume "list_ex (\<lambda>x. model x = model ins) ?rs"
    then have i: "0 \<le> ?i" using findIndex_neg [of "\<lambda>x. model x = model ins" ?rs] by simp
    from findIndex_hit [OF i] have "nat ?i < length ?rs" by simp
    moreover from i have w: "written ins uuid now ?rs = ?rs[nat ?i := stamped ins uuid now]"
      by (simp add: written_def)
    moreover have "findIndex (\<lambda>x. model x = model ins) (written ins uuid now ?rs) = ?i"
      unfolding w using i by (rule findIndex_update) (rule model_stamped)
    ultimately show "0 \<le> ?i \<and> nat ?i < length ?rs
         \<and> written ins uuid now ?rs = ?rs[nat ?i := stamped ins uuid now]
         \<and> findIndex (\<lambda>x. model x = model ins) (written ins uuid now ?rs) = ?i"
      using i by simp
  qed
  have resp': "stamped ins uuid now =
       \<lparr>decisionId = decisionId ins, model = model ins, vote = vote ins,
        reasoning = reasoning ins, confidence = confidence ins, risks = risks ins,
        recommendations = recommendations ins, resp_id = uuid, resp_createdAt = now\<rparr>"
    by (simp add: stamped_def)
  from one resp' single slot show ?thesis
    unfolding after resp by blast
qed

theorem one_response_per_voter_witness:
  "list_ex (\<lambda>x. model x = Chatgpt) (getAIResponses ''d1'' twoResponded)
   \<and> getAIResponses ''d1''
       (snd (addAIResponse (submission Chatgpt Approve) ''r3'' ''t3'' ''u3'' twoResponded))
     = [stamped (submission Grok Approve) ''r1'' ''t1'',
        stamped (submission Chatgpt Approve) ''r3'' ''t3'']"
  using one_response_per_voter [of Chatgpt "''d1''" "[Create exampleDecision ''d1'' ''t0'',
          Submit (submission Grok Approve) ''r1'' ''t1'' ''u1'',
          Submit (submission Chatgpt Reject) ''r2'' ''t2'' ''u2'']"
          "submission Chatgpt Approve" "''r3''" "''t3''" "''u3''"]
  by (simp add: twoResponded_def store_defs stamped_def)

lemma allResponded_set: "allResponded rs \<longleftrightarrow> set AI_MODELS \<subseteq> model ` set rs"
  by (auto simp: allResponded_def list_all_iff list_ex_iff)

lemma decisions_addAIResponse:
  "decisions (snd (addAIResponse ins uuid now now' s)) d =
     (if d = decisionId ins
      then (case decisions s d of
              None \<Rightarrow> None
            | Some dec \<Rightarrow>
                Some (if allResponded (written ins uuid now (getAIResponses d s))
                         \<and> status dec = Pending
                      then dec\<lparr>status := Deliberating, updatedAt := now'\<rparr> else dec))
      else decisions s d)"
  by (simp add: addAIResponse_def written_def stamped_def Let_def split: option.splits)

lemma submits_keep:
  "list_all isSubmit xs \<Longrightarrow> decisions s d = Some dec \<Longrightarrow> status dec \<noteq> Pending
     \<Longrightarrow> decisions (run xs s) d = Some dec"
proof (induction xs arbitrary: s)
  case Nil
  then show ?case by simp
next
  case (Cons x xs)
  from Cons.prems(1) obtain ins uuid now now' where x: "x = Submit ins uuid now now'"
    by (cases x) simp_all
  have "decisions (perform x s) d = Some dec"
    using Cons.prems(2,3) by (auto simp: x decisions_addAIResponse)
  with Cons show ?case by simp
qed

text \<open>
  C4. A submission moves a decision from \<open>Pending\<close> to \<open>Deliberating\<close> exactly when it is
  addressed to that decision, every required voter is represented after the write, and the
  status was \<open>Pending\<close>; otherwise the decision record is untouched. Once the status is not
  \<open>Pending\<close>, no sequence of submissions changes the record: the status never reverts and
  the transition (with its timestamp refresh) is not taken again.
\<close>

theorem status_advance_one_way:
  assumes "decisions s d = Some dec"
  shows "decisions (snd (addAIResponse ins uuid now now' s)) d =
           Some (if decisionId ins = d
                    \<and> set AI_MODELS
                        \<subseteq> model ` set (getAIResponses d (snd (addAIResponse ins uuid now now' s)))
                    \<and> status dec = Pending
                 then dec\<lparr>status := Deliberating, updatedAt := now'\<rparr> else dec)
    \<and> (status dec \<noteq> Pending \<longrightarrow> list_all isSubmit ops
          \<longrightarrow> decisions (run ops s) d = Some dec)"
proof -
  have "decisions (snd (addAIResponse ins uuid now now' s)) d =
           Some (if decisionId ins = d
                    \<and> allResponded (getAIResponses d (snd (addAIResponse ins uuid now now' s)))
                    \<and> status dec = Pending
                 then dec\<lparr>status := Deliberating, updatedAt := now'\<rparr> else dec)"
    using assms by (auto simp: decisions_addAIResponse responses_addAIResponse)
  then show ?thesis
    unfolding allResponded_set using assms submits_keep [of ops s d dec] by blast
qed

theorem status_advance_one_way_witness:
  "decisions twoResponded ''d1'' = Some createdDecision
   \<and> status createdDecision = Pending
   \<and> decisions (snd (addAIResponse (submission Claude Reject) ''r3'' ''t3'' ''u3'' twoResponded))
       ''d1'' = Some (createdDecision\<lparr>status := Deliberating, updatedAt := ''u3''\<rparr>)
   \<and> decisions allRespondedStore ''d1''
       = Some (createdDecision\<lparr>status := Deliberating, updatedAt := ''u3''\<rparr>)
   \<and> decisions (run [Submit (submission Claude Reject) ''r4'' ''t4'' ''u4'',
                      Submit (submission Grok Abstain) ''r5'' ''t5'' ''u5''] allRespondedStore)
       ''d1'' = Some (createdDecision\<lparr>status := Deliberating, updatedAt := ''u3''\<rparr>)"
  using status_advance_one_way [of twoResponded "''d1''" createdDecision "submission Claude Reject"
              "''r3''" "''t3''" "''u3''" "[]"]
    status_advance_one_way [of allRespondedStore "''d1''" "createdDecision\<lparr>status := Deliberating, updatedAt := ''u3''\<rparr>"
           "submission Claude Reject" "''r4''" "''t4''" "''u4''"
           "[Submit (submission Claude Reject) ''r4'' ''t4'' ''u4'',
             Submit (submission Grok Abstain) ''r5'' ''t5'' ''u5'']"]
  by (simp add: twoResponded_def allRespondedStore_def createdDecision_def store_defs)

text \<open>
  C6. For an existing decision \<^verbatim>\<open>setConsensus\<close> stores (or overwrites) the consensus with the
  drawn id and creation timestamp, sets the status to \<open>Consensus_reached\<close> whatever the
  responses on file, and refreshes \<open>updatedAt\<close>; responses and other decisions are untouched.
  For an unknown id it returns nothing and leaves the store as it was.
\<close>

theorem setConsensus_effect:
  "(decisions s d = Some dec \<longrightarrow>
      fst (setConsensus d body uuid now now' s) =
        Some \<lparr>outcome = outcome body, unanimity = unanimity body,
              voteSummary = voteSummary body,
              synthesizedReasoning = synthesizedReasoning body,
              actionItems = actionItems body,
              cons_id = uuid, cons_decisionId = d, cons_createdAt = now\<rparr>
      \<and> getConsensus d (snd (setConsensus d body uuid now now' s))
          = fst (setConsensus d body uuid now now' s)
      \<and> decisions (snd (setConsensus d body uuid now now' s)) d
          = Some (dec\<lparr>status := Consensus_reached, updatedAt := now'\<rparr>)
      \<and> getDecision d (snd (setConsensus d body uuid now now' s))
          = Some (dec\<lparr>status := Consensus_reached, updatedAt := now',
                      responses := getAIResponses d s,
                      consensus := fst (setConsensus d body uuid now now' s)\<rparr>)
      \<and> aiResponses (snd (setConsensus d body uuid now now' s)) = aiResponses s
      \<and> (d' \<noteq> d \<longrightarrow>
            decisions (snd (setConsensus d body uuid now now' s)) d' = decisions s d'
          \<and> consensuses (snd (setConsensus d body uuid now now' s)) d' = consensuses s d'))
   \<and> (decisions s d = None \<longrightarrow> setConsensus d body uuid now now' s = (None, s))"
  by (simp add: setConsensus_def getConsensus_def getDecision_def getAIResponses_def Let_def)

theorem setConsensus_effect_witness:
  "decisions onlyCreated ''d1'' = Some createdDecision
   \<and> getAIResponses ''d1'' onlyCreated = []
   \<and> decisions (snd (setConsensus ''d1'' (calculateConsensus exampleRoles []) ''c1'' ''t1'' ''u1''
        onlyCreated)) ''d1''
       = Some (createdDecision\<lparr>status := Consensus_reached, updatedAt := ''u1''\<rparr>)
   \<and> map_option cons_id (getConsensus ''d1''
        (snd (setConsensus ''d1'' (calculateConsensus exampleRoles []) ''c1'' ''t1'' ''u1''
           onlyCreated))) = Some ''c1''
   \<and> decisions onlyCreated ''d2'' = None
   \<and> setConsensus ''d2'' (calculateConsensus exampleRoles []) ''c1'' ''t1'' ''u1'' onlyCreated
       = (None, onlyCreated)"
  using setConsensus_effect [of onlyCreated "''d1''" createdDecision "calculateConsensus exampleRoles []"
              "''c1''" "''t1''" "''u1''" "''d2''"]
    setConsensus_effect [of onlyCreated "''d2''" createdDecision "calculateConsensus exampleRoles []"
              "''c1''" "''t1''" "''u1''" "''d1''"]
  by (simp add: onlyCreated_def createdDecision_def store_defs)

text \<open>
  C7, as stated, fails for the store operation: on the empty store, where the submission's
  \<open>decisionId\<close> matches no decision, \<^verbatim>\<open>addAIResponse\<close> returns its response and records it.
\<close>

theorem addAIResponse_orphan_counterexample:
  "decisions MemStorage_new (decisionId (submission Grok Approve)) = None
   \<and> getAIResponses (decisionId (submission Grok Approve))
       (snd (addAIResponse (submission Grok Approve) ''r1'' ''t1'' ''u1'' MemStorage_new))
     = [fst (addAIResponse (submission Grok Approve) ''r1'' ''t1'' ''u1'' MemStorage_new)]
   \<and> getAIResponses (decisionId (submission Grok Approve)) MemStorage_new = []"
  by (simp add: store_defs)

text \<open>
  C7, amended. The existence check sits in the route: POST /api/decisions/:id/responses
  answers not-found for an unknown decision id and leaves the store unchanged. The store
  method \<^verbatim>\<open>addAIResponse\<close> itself makes no such check: for an unknown \<open>decisionId\<close> it records
  the response under that id and leaves decisions and consensuses as they were.
\<close>

theorem submit_not_found_at_route:
  "(decisions s ident = None \<longrightarrow>
      postResponse valid ident body uuid now now' s = (Decision_not_found, s))
   \<and> (decisions s (decisionId ins) = None \<longrightarrow>
        fst (addAIResponse ins uuid now now' s)
          \<in> set (getAIResponses (decisionId ins) (snd (addAIResponse ins uuid now now' s)))
      \<and> decisions (snd (addAIResponse ins uuid now now' s)) = decisions s
      \<and> consensuses (snd (addAIResponse ins uuid now now' s)) = consensuses s)"
proof -
  let ?rs = "getAIResponses (decisionId ins) s"
  have "stamped ins uuid now \<in> set (written ins uuid now ?rs)"
  proof (cases "0 \<le> findIndex (\<lambda>x. model x = model ins) ?rs")
    case True
    from findIndex_hit [OF True] show ?thesis
      using True by (simp add: written_def set_update_memI)
  next
    case False
    then show ?thesis by (simp add: written_def)
  qed
  then have "fst (addAIResponse ins uuid now now' s)
          \<in> set (getAIResponses (decisionId ins) (snd (addAIResponse ins uuid now now' s)))"
    by (simp add: fst_addAIResponse responses_addAIResponse)
  moreover have "decisions s (decisionId ins) = None \<longrightarrow>
        decisions (snd (addAIResponse ins uuid now now' s)) = decisions s
      \<and> consensuses (snd (addAIResponse ins uuid now now' s)) = consensuses s"
    by (simp add: addAIResponse_def Let_def)
  moreover have "decisions s ident = None \<longrightarrow>
      postResponse valid ident body uuid now now' s = (Decision_not_found, s)"
    by (simp add: postResponse_def getDecision_def)
  ultimately show ?thesis by blast
qed

theorem submit_not_found_at_route_witness:
  "decisions MemStorage_new ''d1'' = None
   \<and> postResponse (\<lambda>r. True) ''d1'' (submission Grok Approve) ''r1'' ''t1'' ''u1'' MemStorage_new
       = (Decision_not_found, MemStorage_new)
   \<and> decisions (snd (addAIResponse (submission Grok Approve) ''r1'' ''t1'' ''u1'' MemStorage_new))
       ''d1'' = None"
  using submit_not_found_at_route [of MemStorage_new "''d1''" "\<lambda>r. True" "submission Grok Approve" "''r1''" "''t1''" "''u1''"
              "submission Grok Approve"]
  by (simp add: store_defs)

text \<open>
  C8, as stated, fails in its return value: in the store reached by one submission for an
  id that has no decision, a response list is on file under that id and
  \<^verbatim>\<open>deleteDecision\<close> removes it, yet the method returns false.
\<close>

theorem deleteDecision_orphan_counterexample:
  "decisions orphanStore ''d1'' = None
   \<and> aiResponses orphanStore ''d1'' \<noteq> None
   \<and> getAIResponses ''d1'' orphanStore \<noteq> []
   \<and> fst (deleteDecision ''d1'' orphanStore) = False
   \<and> aiResponses (snd (deleteDecision ''d1'' orphanStore)) ''d1'' = None
   \<and> getAIResponses ''d1'' (snd (deleteDecision ''d1'' orphanStore)) = []"
  by (simp add: orphanStore_def deleteDecision_def store_defs)

text \<open>
  C8, amended. \<^verbatim>\<open>deleteDecision\<close> removes the decision together with the responses and the
  consensus stored under its id, and returns whether the decision itself existed; after
  any delete \<^verbatim>\<open>getDecision\<close> and \<^verbatim>\<open>getConsensus\<close> find nothing for that id and
  \<^verbatim>\<open>getAIResponses\<close> gives the empty list. Other ids are not affected.
\<close>

theorem deleteDecision_cascade:
  "fst (deleteDecision d s) = (decisions s d \<noteq> None)
   \<and> decisions (snd (deleteDecision d s)) d = None
   \<and> aiResponses (snd (deleteDecision d s)) d = None
   \<and> consensuses (snd (deleteDecision d s)) d = None
   \<and> getDecision d (snd (deleteDecision d s)) = None
   \<and> getConsensus d (snd (deleteDecision d s)) = None
   \<and> getAIResponses d (snd (deleteDecision d s)) = []
   \<and> (d' \<noteq> d \<longrightarrow>
        decisions (snd (deleteDecision d s)) d' = decisions s d'
        \<and> aiResponses (snd (deleteDecision d s)) d' = aiResponses s d'
        \<and> consensuses (snd (deleteDecision d s)) d' = consensuses s d'
        \<and> getDecision d' (snd (deleteDecision d s)) = getDecision d' s
        \<and> getConsensus d' (snd (deleteDecision d s)) = getConsensus d' s
        \<and> getAIResponses d' (snd (deleteDecision d s)) = getAIResponses d' s)"
  by (auto simp: deleteDecision_def getDecision_def getConsensus_def getAIResponses_def Let_def
      split: option.splits)

theorem deleteDecision_cascade_witness:
  "fst (deleteDecision ''d1'' allRespondedStore)
   \<and> getAIResponses ''d1'' allRespondedStore \<noteq> []
   \<and> getDecision ''d1'' (snd (deleteDecision ''d1'' allRespondedStore)) = None
   \<and> getConsensus ''d1'' (snd (deleteDecision ''d1'' allRespondedStore)) = None
   \<and> getAIResponses ''d1'' (snd (deleteDecision ''d1'' allRespondedStore)) = []
   \<and> \<not> fst (deleteDecision ''d2'' allRespondedStore)
   \<and> getAIResponses ''d1'' (snd (deleteDecision ''d2'' allRespondedStore))
       = getAIResponses ''d1'' allRespondedStore"
  using deleteDecision_cascade [of "''d1''" allRespondedStore "''d2''"]
    deleteDecision_cascade [of "''d2''" allRespondedStore "''d1''"]
  by (simp add: allRespondedStore_def getConsensus_def deleteDecision_def store_defs)

section \<open>The consensus endpoint\<close>

lemma set_missingModels: "set (missingModels rs) = set AI_MODELS - model ` set rs"
  by (auto simp: missingModels_def list_ex_iff)

text \<open>
  C5. When the decision exists and some required voter has no response on file, the
  consensus endpoint answers with the precondition error carrying the voters of all
  responses on file and all required voters still missing, and the store is returned
  unchanged: no consensus is written and no status moves.
\<close>

theorem consensus_precondition_failed:
  assumes "decisions s d = Some dec"
    and "m \<in> set AI_MODELS" and "m \<notin> model ` set (getAIResponses d s)"
  shows "postConsensus roleName d uuid now now' s =
           (Cannot_reach_consensus (map model (getAIResponses d s))
              (missingModels (getAIResponses d s)), s)
    \<and> set (map model (getAIResponses d s)) = model ` set (getAIResponses d s)
    \<and> set (missingModels (getAIResponses d s))
        = set AI_MODELS - model ` set (getAIResponses d s)
    \<and> m \<in> set (missingModels (getAIResponses d s))"
proof -
  have "\<not> allResponded (getAIResponses d s)"
    using assms(2,3) by (auto simp: allResponded_set)
  then have "\<not> list_all (\<lambda>m. list_ex (\<lambda>r. model r = m) (getAIResponses d s)) AI_MODELS"
    by (simp add: allResponded_def)
  then have "postConsensus roleName d uuid now now' s =
           (Cannot_reach_consensus (map model (getAIResponses d s))
              (missingModels (getAIResponses d s)), s)"
    using assms(1) by (simp add: postConsensus_def getDecision_def Let_def)
  then show ?thesis using assms(2,3) by (simp add: set_missingModels)
qed

theorem consensus_precondition_failed_witness:
  "decisions twoResponded ''d1'' = Some createdDecision
   \<and> Claude \<in> set AI_MODELS \<and> Claude \<notin> model ` set (getAIResponses ''d1'' twoResponded)
   \<and> postConsensus exampleRoles ''d1'' ''c1'' ''t3'' ''u3'' twoResponded
       = (Cannot_reach_consensus [Grok, Chatgpt] [Claude], twoResponded)"
  using consensus_precondition_failed [of twoResponded "''d1''" createdDecision Claude exampleRoles "''c1''" "''t3''" "''u3''"]
  by (simp add: twoResponded_def createdDecision_def store_defs missingModels_def)

lemma postConsensus_created:
  assumes "postConsensus roleName ident uuid now now' s = (Created_consensus (Some c), s')"
  shows "outcome c = outcome (calculateConsensus roleName (getAIResponses ident s))
    \<and> unanimity c = unanimity (calculateConsensus roleName (getAIResponses ident s))
    \<and> allResponded (getAIResponses ident s)"
  using assms
  by (auto simp: postConsensus_def setConsensus_def getDecision_def Let_def allResponded_def
      split: option.splits if_splits)

text \<open>
  C10. Every consensus the endpoint produces with \<open>unanimity = True\<close> has outcome \<open>Approved\<close>
  or \<open>Rejected\<close>; a response set in which every vote is an abstention is reported with
  \<open>unanimity = False\<close>.
\<close>

theorem unanimity_implies_decisive:
  assumes "postConsensus roleName ident uuid now now' s = (Created_consensus (Some c), s')"
  shows "(unanimity c \<longrightarrow> outcome c = Approved \<or> outcome c = Rejected)
    \<and> (list_all (\<lambda>r. vote r = Abstain) (getAIResponses ident s) \<longrightarrow> \<not> unanimity c)"
proof -
  let ?rs = "getAIResponses ident s"
  have "list_all (\<lambda>r. vote r = Abstain) ?rs \<longrightarrow> countVotes Approve ?rs = 0 \<and> countVotes Reject ?rs = 0"
    by (auto simp: countVotes_def list_all_iff filter_empty_conv)
  then show ?thesis
  using postConsensus_created [OF assms]
  by (auto simp: outcome_calc unanimity_calc checkUnanimity_def determineOutcome_def tally_def)
qed

theorem unanimity_implies_decisive_witness:
  "postConsensus exampleRoles ''d1'' ''c1'' ''t4'' ''u4'' allRespondedStore
     = (Created_consensus (Some exampleConsensus),
        snd (postConsensus exampleRoles ''d1'' ''c1'' ''t4'' ''u4'' allRespondedStore))
   \<and> unanimity exampleConsensus \<and> outcome exampleConsensus = Approved
   \<and> postConsensus exampleRoles ''d1'' ''c1'' ''t4'' ''u4'' allAbstainStore
     = (Created_consensus (Some abstainConsensus),
        snd (postConsensus exampleRoles ''d1'' ''c1'' ''t4'' ''u4'' allAbstainStore))
   \<and> list_all (\<lambda>r. vote r = Abstain) (getAIResponses ''d1'' allAbstainStore)
   \<and> \<not> unanimity abstainConsensus"
proof -
  have p: "postConsensus exampleRoles ''d1'' ''c1'' ''t4'' ''u4'' allRespondedStore
     = (Created_consensus (Some exampleConsensus),
        snd (postConsensus exampleRoles ''d1'' ''c1'' ''t4'' ''u4'' allRespondedStore))"
    by (simp add: postConsensus_def getDecision_def setConsensus_def allRespondedStore_def
          store_defs calculateConsensus_def exampleConsensus_def checkUnanimity_def
          determineOutcome_def tally_def countVotes_def allActionItems_def arrayFromSet_def)
  have q: "postConsensus exampleRoles ''d1'' ''c1'' ''t4'' ''u4'' allAbstainStore
     = (Created_consensus (Some abstainConsensus),
        snd (postConsensus exampleRoles ''d1'' ''c1'' ''t4'' ''u4'' allAbstainStore))"
    by (simp add: postConsensus_def getDecision_def setConsensus_def allAbstainStore_def
          store_defs calculateConsensus_def abstainConsensus_def checkUnanimity_def
          determineOutcome_def tally_def countVotes_def allActionItems_def arrayFromSet_def)
  have a: "list_all (\<lambda>r. vote r = Abstain) (getAIResponses ''d1'' allAbstainStore)"
    by (simp add: allAbstainStore_def store_defs)
  have u: "unanimity exampleConsensus" by (simp add: exampleConsensus_def)
  from unanimity_implies_decisive [OF p] u
  have "outcome exampleConsensus = Approved \<or> outcome exampleConsensus = Rejected" by simp
  then have o: "outcome exampleConsensus = Approved" by (simp add: exampleConsensus_def)
  from unanimity_implies_decisive [OF q] a have "\<not> unanimity abstainConsensus" by simp
  with p q a u o show ?thesis by simp
qed

end
